theory Spec2Isabelle
  imports Main
begin

section \<open>Data model of client/src/extension.ts\<close>

text \<open>
  The module keeps its state in top-level variables. The variables that are assigned and
  cleared during the life of the extension (\<open>serverProcess\<close>, \<open>client\<close>, \<open>socket\<close>,
  \<open>errorDiagnostic\<close>) are options: \<open>None\<close> is \<open>undefined\<close> or \<open>null\<close>. The variables that
  the synchronous prologue of \<open>activate\<close> assigns once, before any other function of the
  module can run (\<open>outputChannel\<close>, \<open>logger\<close>, \<open>statusBarItem\<close>, \<open>webviewProvider\<close>), are
  taken as initialised: of the logger and of the status bar item the state keeps what was
  written to them, of the webview provider its private field \<open>view\<close>.

  Everything the module does to the outside (log lines, status bar updates, user
  messages, calls on the client, the socket and the process, messages to the webview) is
  appended to \<open>trace\<close>, in program order.
\<close>

type_synonym handle = nat

datatype DiagnosticSeverity = Error | Warning | Information | Hint

record position =
  line :: nat
  character :: nat

record vrange =
  range_start :: position
  range_end :: position

text \<open>
  The \<open>data\<close> payload of a diagnostic is whatever the server attached to it; reading
  \<open>errorKind\<close> from it gives \<open>undefined\<close> when the payload has no such property.
\<close>

record DiagnosticData =
  errorKind :: "string option"

text \<open>
  \<open>LJDiagnostic\<close> (declared in types.ts) is a \<open>vscode.Diagnostic\<close> with a \<open>data\<close> payload
  that carries the error kind. \<open>handleDiagnostics\<close> receives \<open>vscode.Diagnostic\<close>s and
  casts the one it finds to \<open>LJDiagnostic\<close> without a check, so the payload can be missing:
  \<open>d_data = None\<close> is a diagnostic whose \<open>data\<close> is \<open>undefined\<close> or \<open>null\<close>. \<open>source\<close> is
  optional in \<open>vscode.Diagnostic\<close>.
\<close>

record LJDiagnostic =
  d_message :: string
  d_range :: vrange
  d_severity :: DiagnosticSeverity
  d_source :: "string option"
  d_data :: "DiagnosticData option"

text \<open>
  \<open>RefinementError\<close> (declared in types.ts). The types of \<open>expected\<close>, \<open>found\<close> and
  \<open>translationTable\<close> are those of the three example constants of constants.ts and are
  kept as type parameters.
\<close>

record ('x, 'f, 't) RefinementError =
  message :: string
  range_e :: vrange
  severity :: DiagnosticSeverity
  file_e :: string
  kind :: "string option"
  expected :: 'x
  found :: 'f
  translationTable :: 't

record uri =
  fsPath :: string

text \<open>The constants imported from constants.ts, as a parameter of the model.\<close>

record ('x, 'f, 't) constants =
  SERVER_JAR_FILENAME :: string
  DEBUG_MODE :: bool
  DEBUG_PORT :: nat
  EXAMPLE_EXPECTED :: 'x
  EXAMPLE_DERIVATION_NODE :: 'f
  EXAMPLE_TRANSLATION_TABLE :: 't

datatype status = Loading | Stopped | Passed | Failed

datatype origin = Client | Server

datatype level = Info | Err

datatype msglevel = WarningMessage | ErrorMessage

text \<open>The one message the extension posts to the webview: \<open>{type: "refinement-error", error}\<close>.\<close>

datatype ('x, 'f, 't) message = RefinementErrorMsg "('x, 'f, 't) RefinementError option"

datatype ('x, 'f, 't) effect =
    Log origin level string
  | SetStatus status
  | ShowMessage msglevel string
  | ApplyItalicOverlay
  | GetAvailablePort
  | Spawn string "string list" string
  | ClientStart handle
  | ConnectToPort nat
  | ClientStop handle
  | SocketDestroy handle
  | KillProcess handle
  | SendMessage "('x, 'f, 't) message"
  | PostMessage "('x, 'f, 't) message"

record ('x, 'f, 't) state =
  serverProcess :: "handle option"
  client :: "handle option"
  socket :: "handle option"
  errorDiagnostic :: "('x, 'f, 't) RefinementError option"
  statusBar :: "status option"
  view :: bool
  trace :: "('x, 'f, 't) effect list"

section \<open>Sinks: logger, status bar, webview provider\<close>

definition emit :: "('x, 'f, 't) effect \<Rightarrow> ('x, 'f, 't) state \<Rightarrow> ('x, 'f, 't) state" where
  "emit e s = s\<lparr>trace := trace s @ [e]\<rparr>"

definition logInfo :: "origin \<Rightarrow> string \<Rightarrow> ('x, 'f, 't) state \<Rightarrow> ('x, 'f, 't) state" where
  "logInfo orig m = emit (Log orig Info m)"

definition logError :: "origin \<Rightarrow> string \<Rightarrow> ('x, 'f, 't) state \<Rightarrow> ('x, 'f, 't) state" where
  "logError orig m = emit (Log orig Err m)"

definition icons :: "status \<Rightarrow> string" where
  "icons st = (case st of
       Loading \<Rightarrow> ''$(sync~spin)''
     | Stopped \<Rightarrow> ''$(circle-slash)''
     | Passed \<Rightarrow> ''$(check)''
     | Failed \<Rightarrow> ''$(x)'')"

definition statusColor :: "status \<Rightarrow> string" where
  "statusColor st = (if st = Stopped then ''errorForeground'' else ''statusBar.foreground'')"

definition statusText :: "status \<Rightarrow> string" where
  "statusText st = icons st @ '' LiquidJava''"

text \<open>
  \<open>updateStatusBar\<close>: colour and text of the status bar item are functions of the state
  name, so the model stores the state name.
\<close>

definition updateStatusBar :: "status \<Rightarrow> ('x, 'f, 't) state \<Rightarrow> ('x, 'f, 't) state" where
  "updateStatusBar st s = emit (SetStatus st) (s\<lparr>statusBar := Some st\<rparr>)"

text \<open>
  \<open>LiquidJavaWebviewProvider.sendMessage\<close> (webview/provider.ts): the message is posted
  only when the view has been resolved (\<open>this.view?.webview.postMessage(message)\<close>).
\<close>

definition sendMessage :: "('x, 'f, 't) message \<Rightarrow> ('x, 'f, 't) state \<Rightarrow> ('x, 'f, 't) state" where
  "sendMessage m s =
     (let s1 = emit (SendMessage m) s
      in if view s1 then emit (PostMessage m) s1 else s1)"

section \<open>handleDiagnostics\<close>

definition isEngineError :: "LJDiagnostic \<Rightarrow> bool" where
  "isEngineError d \<longleftrightarrow> d_severity d = Error \<and> d_source d = Some ''liquidjava''"

text \<open>
  \<open>handleDiagnostics\<close>. The first component of the result is the exception that leaves
  the function, if one does: \<open>diagnostic.data.errorKind\<close> (line 344) is a \<open>TypeError\<close>
  when the diagnostic that was found has no \<open>data\<close>. The object literal is evaluated
  before anything is sent, so the function then leaves the state as it was.
\<close>

definition handleDiagnostics ::
  "('x, 'f, 't) constants \<Rightarrow> uri \<Rightarrow> LJDiagnostic list \<Rightarrow> ('x, 'f, 't) state
     \<Rightarrow> string option \<times> ('x, 'f, 't) state" where
  "handleDiagnostics K u diagnostics s =
     (case find isEngineError diagnostics of
        None \<Rightarrow>
          (let s1 = sendMessage (RefinementErrorMsg None) s;
               s2 = updateStatusBar Passed s1
           in (None, s2\<lparr>errorDiagnostic := None\<rparr>))
      | Some diagnostic \<Rightarrow>
          (case d_data diagnostic of
             None \<Rightarrow> (Some ''TypeError'', s)
           | Some data \<Rightarrow>
               (let error = \<lparr> message = d_message diagnostic,
                              range_e = d_range diagnostic,
                              severity = d_severity diagnostic,
                              file_e = fsPath u,
                              kind = errorKind data,
                              expected = EXAMPLE_EXPECTED K,
                              found = EXAMPLE_DERIVATION_NODE K,
                              translationTable = EXAMPLE_TRANSLATION_TABLE K \<rparr>;
                    s1 = sendMessage (RefinementErrorMsg (Some error)) s;
                    s2 = updateStatusBar Failed s1
                in (None, s2\<lparr>errorDiagnostic := Some error\<rparr>))))"

section \<open>Rendering numbers in log lines\<close>

text \<open>
  \<open>Number.prototype.toString\<close> on the numbers that occur here: ports, which are natural
  numbers, and exit codes, which are integers. Decimal digits, most significant first.
\<close>

definition digit :: "nat \<Rightarrow> char" where
  "digit d = ''0123456789'' ! (d mod 10)"

fun decimal :: "nat \<Rightarrow> string \<Rightarrow> string" where
  "decimal n acc =
     (if n < 10 then digit n # acc else decimal (n div 10) (digit n # acc))"

declare decimal.simps [simp del]

definition toString :: "nat \<Rightarrow> string" where
  "toString n = decimal n []"

definition intToString :: "int \<Rightarrow> string" where
  "intToString i = (if 0 \<le> i then toString (nat i) else CHR ''-'' # toString (nat (- i)))"

text \<open>The exit code of a process is a number or \<open>null\<close>; a template literal prints \<open>null\<close> as is.\<close>

definition codeToString :: "int option \<Rightarrow> string" where
  "codeToString code = (case code of None \<Rightarrow> ''null'' | Some i \<Rightarrow> intToString i)"

section \<open>stopExtension\<close>

text \<open>
  What the three teardown actions of one call of \<open>stopExtension\<close> answer is decided by
  the environment: \<open>Some e\<close> means that the action raises (or its promise rejects with)
  \<open>e\<close>, \<open>None\<close> that it completes normally.
\<close>

record teardown =
  clientStopError :: "string option"
  socketDestroyError :: "string option"
  killProcessError :: "string option"

text \<open>
  Modelled from the spec: \<open>killProcess\<close> of utils.ts, which is not among the sources.
  The spec's \<open>terminate\<close> sends a termination signal, does not wait for the exit to be
  confirmed, and is a no-op on a null process handle. The first argument is the error, if
  any, with which the call on a live handle fails.
\<close>

definition killProcess ::
  "string option \<Rightarrow> handle option \<Rightarrow> ('x, 'f, 't) state \<Rightarrow> string option \<times> ('x, 'f, 't) state" where
  "killProcess err proc s =
     (case proc of
        None \<Rightarrow> (None, s)
      | Some p \<Rightarrow> (err, emit (KillProcess p) s))"

text \<open>
  \<open>stopExtension\<close> is an \<open>async\<close> function with two \<open>await\<close>s, so it runs in three
  segments, and other callbacks of the module can run between them.

  First segment (lines 296 to 305): the guard, the log line, the status bar, and the call
  \<open>client?.stop()\<close>. It answers \<open>None\<close> when the function returned at the guard, and
  otherwise \<open>Some r\<close>, where \<open>r\<close> is what the awaited \<open>client?.stop()\<close> will
  settle with (nothing is called, and nothing can fail, when there is no client).
\<close>

definition stop_begin ::
  "string \<Rightarrow> teardown \<Rightarrow> ('x, 'f, 't) state \<Rightarrow> string option option \<times> ('x, 'f, 't) state" where
  "stop_begin reason td s =
     (if client s = None \<and> serverProcess s = None \<and> socket s = None
      then (None, logInfo Client ''Extension already stopped'' s)
      else
        (let s1 = logInfo Client (''Stopping LiquidJava extension: '' @ reason) s;
             s2 = updateStatusBar Stopped s1
         in case client s2 of
              None \<Rightarrow> (Some None, s2)
            | Some c \<Rightarrow> (Some (clientStopError td), emit (ClientStop c) s2)))"

text \<open>
  Second segment (lines 306 to 322), entered when \<open>client?.stop()\<close> has settled with
  \<open>r\<close>: the \<open>catch\<close> and \<open>finally\<close> of the client block, the whole socket block, and the
  call of \<open>killProcess\<close>. It answers what the awaited \<open>killProcess\<close> will settle with.
\<close>

definition stop_after_client ::
  "string option \<Rightarrow> teardown \<Rightarrow> ('x, 'f, 't) state \<Rightarrow> string option \<times> ('x, 'f, 't) state" where
  "stop_after_client r td s =
     (let s1 = (case r of
                  None \<Rightarrow> s
                | Some e \<Rightarrow> logError Client (''Error stopping client: '' @ e) s);
          s2 = s1\<lparr>client := None\<rparr>;
          s3 = (case socket s2 of
                  None \<Rightarrow> s2
                | Some k \<Rightarrow>
                    (let s' = emit (SocketDestroy k) s2
                     in case socketDestroyError td of
                          None \<Rightarrow> s'
                        | Some e \<Rightarrow> logError Client (''Error closing socket: '' @ e) s'));
          s4 = s3\<lparr>socket := None\<rparr>
      in killProcess (killProcessError td) (serverProcess s4) s4)"

text \<open>
  Third segment (line 323), entered when \<open>killProcess\<close> has settled with \<open>r\<close>. The
  \<open>await\<close> is in no \<open>try\<close> block: a rejection leaves the function at once, as the
  rejection of its own promise, and the assignment is not reached.
\<close>

definition stop_after_kill ::
  "string option \<Rightarrow> ('x, 'f, 't) state \<Rightarrow> string option \<times> ('x, 'f, 't) state" where
  "stop_after_kill r s =
     (case r of
        Some e \<Rightarrow> (Some e, s)
      | None \<Rightarrow> (None, s\<lparr>serverProcess := None\<rparr>))"

text \<open>
  The call that runs to its end with nothing in between. The first component of the
  result is the error with which the promise of \<open>stopExtension\<close> rejects, if it does.
\<close>

definition stopExtension ::
  "string \<Rightarrow> teardown \<Rightarrow> ('x, 'f, 't) state \<Rightarrow> string option \<times> ('x, 'f, 't) state" where
  "stopExtension reason td s =
     (case stop_begin reason td s of
        (None, s1) \<Rightarrow> (None, s1)
      | (Some r, s1) \<Rightarrow>
          (case stop_after_client r td s1 of
             (r', s2) \<Rightarrow> stop_after_kill r' s2))"

section \<open>activate, runLanguageServer, runClient\<close>

text \<open>
  What the collaborators answer during one activation. \<open>isJarPresent\<close>,
  \<open>findJavaExecutable\<close>, \<open>getAvailablePort\<close> and \<open>connectToPort\<close> are functions of
  utils.ts, \<open>path.resolve\<close> and \<open>child_process.spawn\<close> are Node's, \<open>client.start()\<close> is
  the language client library's. A sum is a promise that rejects (\<open>Inl\<close>) or resolves.
\<close>

record env =
  jarIsPresent :: bool
  javaExecutable :: "string option"
  availablePort :: "string + nat"
  extensionPath :: string
  pathResolve :: "string list \<Rightarrow> string"
  workspaceFolders :: "string list"
  newProcess :: handle
  newClient :: handle
  connectResult :: "string + handle"
  startError :: "string option"
  connectTeardown :: teardown
  initTeardown :: teardown

text \<open>How an \<open>async\<close> function ends: it returns, it throws, or its promise never settles.\<close>

datatype completion = Returned | Raised string | Pending

text \<open>
  \<open>runLanguageServer\<close>. The working directory is \<open>workspaceFolders[0].uri.fsPath\<close>, a
  \<open>TypeError\<close> when there is no workspace folder. \<open>spawn\<close> answers a process object at
  once; a failure to start the program is reported later, by the \<open>error\<close> event.
\<close>

definition runLanguageServer ::
  "('x, 'f, 't) constants \<Rightarrow> env \<Rightarrow> string \<Rightarrow> ('x, 'f, 't) state
     \<Rightarrow> (string + nat) \<times> ('x, 'f, 't) state" where
  "runLanguageServer K E javaExecutablePath s =
     (if DEBUG_MODE K then
        (Inr (DEBUG_PORT K),
         logInfo Client (''DEBUG MODE: Using fixed port '' @ toString (DEBUG_PORT K)) s)
      else
        (let s0 = emit GetAvailablePort s
         in case availablePort E of
              Inl e \<Rightarrow> (Inl e, s0)
            | Inr port \<Rightarrow>
                (let s1 = logInfo Client
                            (''Running language server on port '' @ toString port) s0;
                     jarPath = pathResolve E [extensionPath E, ''server'', SERVER_JAR_FILENAME K];
                     args = [''-jar'', jarPath, toString port]
                 in case workspaceFolders E of
                      [] \<Rightarrow> (Inl ''TypeError'', s1)
                    | root # _ \<Rightarrow>
                        (let s2 = logInfo Client ''Creating language server process...'' s1;
                             s3 = emit (Spawn javaExecutablePath args root) s2
                         in (Inr port, s3\<lparr>serverProcess := Some (newProcess E)\<rparr>)))))"

text \<open>The \<open>catch\<close> block of \<open>runClient\<close> (lines 275 to 279), entered with the error of \<open>client.start()\<close>.\<close>

definition startFailed ::
  "string \<Rightarrow> teardown \<Rightarrow> ('x, 'f, 't) state \<Rightarrow> completion \<times> ('x, 'f, 't) state" where
  "startFailed e td s =
     (let s1 = emit (ShowMessage ErrorMessage (''LiquidJava failed to initialize: '' @ e)) s;
          s2 = logError Client (''Failed to initialize: '' @ e) s1
      in case stopExtension ''Failed to initialize'' td s2 of
           (None, s3) \<Rightarrow> (Returned, s3)
         | (Some x, s3) \<Rightarrow> (Raised x, s3))"

text \<open>
  \<open>runClient\<close>, with no other callback in between. \<open>client.start()\<close> asks the server
  options for the streams, which connects to \<open>port\<close>. When the connection fails the
  server options stop the extension and then reject, and \<open>client.start()\<close> rejects with
  that error; when that stop itself rejects, \<open>reject(error)\<close> is never reached and
  \<open>client.start()\<close> never settles. When the connection succeeds, \<open>startError\<close> says
  whether the initialisation that follows fails.
\<close>

definition runClient ::
  "('x, 'f, 't) constants \<Rightarrow> env \<Rightarrow> nat \<Rightarrow> ('x, 'f, 't) state \<Rightarrow> completion \<times> ('x, 'f, 't) state" where
  "runClient K E port s =
     (let s1 = s\<lparr>client := Some (newClient E)\<rparr>;
          s2 = emit (ClientStart (newClient E)) s1;
          s3 = emit (ConnectToPort port) s2
      in case connectResult E of
           Inr sock \<Rightarrow>
             (let s4 = s3\<lparr>socket := Some sock\<rparr>
              in case startError E of
                   None \<Rightarrow> (Returned, logInfo Client ''Extension is ready'' s4)
                 | Some e \<Rightarrow> startFailed e (initTeardown E) s4)
         | Inl error \<Rightarrow>
             (case stopExtension ''Failed to connect to server'' (connectTeardown E) s3 of
                (Some x, s4) \<Rightarrow> (Pending, s4)
              | (None, s4) \<Rightarrow> startFailed error (initTeardown E) s4))"

text \<open>
  The five \<open>init\<close> functions create the output channel, the logger, the status bar item
  and the webview provider and register commands and providers; on the state of the model,
  \<open>initStatusBar\<close> shows "loading" and \<open>initWebview\<close> makes a provider without a view.
\<close>

definition initStatusBar :: "('x, 'f, 't) state \<Rightarrow> ('x, 'f, 't) state" where
  "initStatusBar s = updateStatusBar Loading s"

definition initWebview :: "('x, 'f, 't) state \<Rightarrow> ('x, 'f, 't) state" where
  "initWebview s = s\<lparr>view := False\<rparr>"

text \<open>The two early exits of \<open>activate\<close> (lines 38 to 43 and 48 to 53).\<close>

definition jarNotFound :: "('x, 'f, 't) state \<Rightarrow> completion \<times> ('x, 'f, 't) state" where
  "jarNotFound s =
     (let s1 = emit (ShowMessage WarningMessage ''LiquidJava API Jar Not Found in Workspace'') s;
          s2 = logError Client
                 ''LiquidJava API jar not found in workspace - Not activating extension'' s1
      in (Returned, updateStatusBar Stopped s2))"

definition javaNotFound :: "('x, 'f, 't) state \<Rightarrow> completion \<times> ('x, 'f, 't) state" where
  "javaNotFound s =
     (let s1 = emit (ShowMessage ErrorMessage
                       ''LiquidJava - Java Runtime Not Found in JAVA_HOME or PATH'') s;
          s2 = logError Client
                 ''Java Runtime not found in JAVA_HOME or PATH - Not activating extension'' s1
      in (Returned, updateStatusBar Stopped s2))"

text \<open>
  \<open>activate\<close>, with no other callback in between. \<open>!javaExecutablePath\<close> holds for
  \<open>undefined\<close> and for the empty string.
\<close>

definition activate ::
  "('x, 'f, 't) constants \<Rightarrow> env \<Rightarrow> ('x, 'f, 't) state \<Rightarrow> completion \<times> ('x, 'f, 't) state" where
  "activate K E s =
     (let s1 = initWebview (initStatusBar s);
          s2 = logInfo Client ''Activating LiquidJava extension...'' s1;
          s3 = emit ApplyItalicOverlay s2
      in if \<not> jarIsPresent E then jarNotFound s3
         else
           (let s4 = logInfo Client
                       ''Found LiquidJava API in the workspace - Loading extension...'' s3
            in case javaExecutable E of
                 None \<Rightarrow> javaNotFound s4
               | Some javaExecutablePath \<Rightarrow>
                   if javaExecutablePath = [] then javaNotFound s4
                   else
                     (let s5 = logInfo Client (''Using Java at: '' @ javaExecutablePath) s4;
                          s6 = logInfo Client ''Starting LiquidJava language server...'' s5
                      in case runLanguageServer K E javaExecutablePath s6 of
                           (Inl e, s7) \<Rightarrow> (Raised e, s7)
                         | (Inr port, s7) \<Rightarrow>
                             runClient K E port
                               (logInfo Client ''Starting LiquidJava client...'' s7))))"

text \<open>The state before \<open>activate\<close>: every variable of the module is \<open>undefined\<close>.\<close>

definition initial :: "('x, 'f, 't) state" where
  "initial = \<lparr> serverProcess = None, client = None, socket = None, errorDiagnostic = None,
               statusBar = None, view = False, trace = [] \<rparr>"

section \<open>The callbacks of the module, one event at a time\<close>

text \<open>
  The extension runs on one thread: a callback runs until it returns or reaches an
  \<open>await\<close>. The configuration holds the state of the module, the calls of
  \<open>stopExtension\<close> that are suspended at an \<open>await\<close> (with what the awaited promise
  will settle with), and the errors that left a callback uncaught: those of the calls of
  \<open>stopExtension\<close> that rejected, and those thrown by \<open>handleDiagnostics\<close> into the
  language client that called the middleware.
\<close>

datatype cont = AfterClientStop "string option" | AfterKillProcess "string option"

record ('x, 'f, 't) config =
  st :: "('x, 'f, 't) state"
  pending :: "cont list"
  rejections :: "string list"

text \<open>\<open>State\<close> of vscode-languageclient.\<close>

datatype ClientState = StateStopped | StateStarting | StateRunning

datatype event =
    Deactivate teardown
  | Dispose teardown
  | DidChangeState ClientState teardown
  | ServerClose "int option"
  | ServerError string
  | Diagnostics uri "LJDiagnostic list"
  | DidSaveTextDocument
  | WebviewMessage string
  | ResolveWebviewView
  | Resume nat teardown

text \<open>A call of \<open>stopExtension\<close> from a callback: its first segment runs at once.\<close>

definition callStop ::
  "string \<Rightarrow> teardown \<Rightarrow> ('x, 'f, 't) config \<Rightarrow> ('x, 'f, 't) config" where
  "callStop reason td c =
     (case stop_begin reason td (st c) of
        (None, s1) \<Rightarrow> c\<lparr>st := s1\<rparr>
      | (Some r, s1) \<Rightarrow> c\<lparr>st := s1, pending := pending c @ [AfterClientStop r]\<rparr>)"

text \<open>The suspended call number \<open>i\<close> goes on, to its next \<open>await\<close> or to its end.\<close>

definition resume ::
  "nat \<Rightarrow> teardown \<Rightarrow> ('x, 'f, 't) config \<Rightarrow> ('x, 'f, 't) config" where
  "resume i td c =
     (if i < length (pending c) then
        (case pending c ! i of
           AfterClientStop r \<Rightarrow>
             (case stop_after_client r td (st c) of
                (r', s1) \<Rightarrow> c\<lparr>st := s1, pending := (pending c)[i := AfterKillProcess r']\<rparr>)
         | AfterKillProcess r \<Rightarrow>
             (case stop_after_kill r (st c) of
                (e, s1) \<Rightarrow>
                  c\<lparr>st := s1,
                    pending := take i (pending c) @ drop (Suc i) (pending c),
                    rejections := rejections c @ (case e of None \<Rightarrow> [] | Some x \<Rightarrow> [x])\<rparr>))
      else c)"

text \<open>
  The listener of the process event \<open>close\<close> (lines 224 to 227); the promise of
  \<open>client?.stop()\<close> is dropped.
\<close>

definition onServerClose :: "int option \<Rightarrow> ('x, 'f, 't) state \<Rightarrow> ('x, 'f, 't) state" where
  "onServerClose code s =
     (let s1 = logInfo Server (''Process exited with code '' @ codeToString code) s
      in case client s1 of
           None \<Rightarrow> s1
         | Some c \<Rightarrow> emit (ClientStop c) s1)"

text \<open>The listener of the process event \<open>error\<close> (lines 221 to 223).\<close>

definition onServerError :: "string \<Rightarrow> ('x, 'f, 't) state \<Rightarrow> ('x, 'f, 't) state" where
  "onServerError err s = logError Server (''Failed to start: '' @ err) s"

text \<open>The listener of \<open>onDidSaveTextDocument\<close> (lines 283 to 287).\<close>

definition onDidSaveTextDocument :: "('x, 'f, 't) state \<Rightarrow> ('x, 'f, 't) state" where
  "onDidSaveTextDocument s = (if client s \<noteq> None then updateStatusBar Loading s else s)"

text \<open>The listener of the messages of the webview (lines 135 to 140).\<close>

definition onDidReceiveMessage :: "string \<Rightarrow> ('x, 'f, 't) state \<Rightarrow> ('x, 'f, 't) state" where
  "onDidReceiveMessage ty s =
     (if ty = ''ready'' \<and> errorDiagnostic s \<noteq> None
      then sendMessage (RefinementErrorMsg (errorDiagnostic s)) s
      else s)"

text \<open>\<open>resolveWebviewView\<close> of the provider stores the view.\<close>

definition resolveWebviewView :: "('x, 'f, 't) state \<Rightarrow> ('x, 'f, 't) state" where
  "resolveWebviewView s = s\<lparr>view := True\<rparr>"

fun step ::
  "('x, 'f, 't) constants \<Rightarrow> event \<Rightarrow> ('x, 'f, 't) config \<Rightarrow> ('x, 'f, 't) config" where
  "step K (Deactivate td) c =
     callStop ''Extension was deactivated'' td
       (c\<lparr>st := logInfo Client ''Deactivating LiquidJava extension...'' (st c)\<rparr>)"
| "step K (Dispose td) c = callStop ''Extension was disposed'' td c"
| "step K (DidChangeState newState td) c =
     (if newState = StateStopped then callStop ''Extension stopped'' td c else c)"
| "step K (ServerClose code) c = c\<lparr>st := onServerClose code (st c)\<rparr>"
| "step K (ServerError err) c = c\<lparr>st := onServerError err (st c)\<rparr>"
| "step K (Diagnostics u diagnostics) c =
     (case handleDiagnostics K u diagnostics (st c) of
        (e, s1) \<Rightarrow>
          c\<lparr>st := s1,
            rejections := rejections c @ (case e of None \<Rightarrow> [] | Some x \<Rightarrow> [x])\<rparr>)"
| "step K DidSaveTextDocument c = c\<lparr>st := onDidSaveTextDocument (st c)\<rparr>"
| "step K (WebviewMessage ty) c = c\<lparr>st := onDidReceiveMessage ty (st c)\<rparr>"
| "step K ResolveWebviewView c = c\<lparr>st := resolveWebviewView (st c)\<rparr>"
| "step K (Resume i td) c = resume i td c"

fun run ::
  "('x, 'f, 't) constants \<Rightarrow> event list \<Rightarrow> ('x, 'f, 't) config \<Rightarrow> ('x, 'f, 't) config" where
  "run K [] c = c"
| "run K (e # es) c = run K es (step K e c)"

section \<open>Calls of stopExtension one after the other\<close>

text \<open>
  A sequence of calls of \<open>stopExtension\<close>, each of which runs to its end before the
  next one starts. The result lists how each call ended.
\<close>

fun stopRepeatedly ::
  "(string \<times> teardown) list \<Rightarrow> ('x, 'f, 't) state
     \<Rightarrow> string option list \<times> ('x, 'f, 't) state" where
  "stopRepeatedly [] s = ([], s)"
| "stopRepeatedly ((reason, td) # calls) s =
     (case stopExtension reason td s of
        (r, s1) \<Rightarrow> (case stopRepeatedly calls s1 of (rs, s2) \<Rightarrow> (r # rs, s2)))"

section \<open>Vocabulary of the theorems\<close>

text \<open>
  What one call of \<open>stopExtension\<close> does to a client, to a socket and to a process
  that exist: the teardown action, and the log line of its error if it fails.
\<close>

definition clientEffects :: "teardown \<Rightarrow> handle option \<Rightarrow> ('x, 'f, 't) effect list" where
  "clientEffects td c =
     (case c of
        None \<Rightarrow> []
      | Some h \<Rightarrow>
          ClientStop h #
          (case clientStopError td of
             None \<Rightarrow> []
           | Some e \<Rightarrow> [Log Client Err (''Error stopping client: '' @ e)]))"

definition socketEffects :: "teardown \<Rightarrow> handle option \<Rightarrow> ('x, 'f, 't) effect list" where
  "socketEffects td k =
     (case k of
        None \<Rightarrow> []
      | Some h \<Rightarrow>
          SocketDestroy h #
          (case socketDestroyError td of
             None \<Rightarrow> []
           | Some e \<Rightarrow> [Log Client Err (''Error closing socket: '' @ e)]))"

definition processEffects :: "handle option \<Rightarrow> ('x, 'f, 't) effect list" where
  "processEffects p = (case p of None \<Rightarrow> [] | Some h \<Rightarrow> [KillProcess h])"

text \<open>Effects among which no port is allocated, no process spawned and no connection made.\<close>

definition startsNothing :: "('x, 'f, 't) effect list \<Rightarrow> bool" where
  "startsNothing es \<longleftrightarrow>
     GetAvailablePort \<notin> set es \<and> (\<forall>a b c. Spawn a b c \<notin> set es) \<and>
     (\<forall>q. ConnectToPort q \<notin> set es)"

section \<open>Concrete inputs\<close>

text \<open>Inputs at which the theorems below are instantiated.\<close>

definition exampleConstants :: "(string, string, (string \<times> string) list) constants" where
  "exampleConstants =
     \<lparr> SERVER_JAR_FILENAME = ''language-server-liquidjava.jar'', DEBUG_MODE = False,
       DEBUG_PORT = 50000, EXAMPLE_EXPECTED = ''_ > 0'', EXAMPLE_DERIVATION_NODE = ''-8'',
       EXAMPLE_TRANSLATION_TABLE = [(''#a_1'', ''a'')] \<rparr>"

text \<open>After a successful activation: process 1, client 2, socket 3.\<close>

definition running :: "(string, string, (string \<times> string) list) state" where
  "running = \<lparr> serverProcess = Some 1, client = Some 2, socket = Some 3, errorDiagnostic = None,
               statusBar = Some Passed, view = True, trace = [] \<rparr>"

text \<open>After \<open>runLanguageServer\<close> has spawned process 1, before the client exists.\<close>

definition starting :: "(string, string, (string \<times> string) list) state" where
  "starting = \<lparr> serverProcess = Some 1, client = None, socket = None, errorDiagnostic = None,
                statusBar = Some Loading, view = False, trace = [] \<rparr>"

definition ok :: teardown where
  "ok = \<lparr> clientStopError = None, socketDestroyError = None, killProcessError = None \<rparr>"

definition diag :: "string \<Rightarrow> DiagnosticSeverity \<Rightarrow> string option \<Rightarrow> LJDiagnostic" where
  "diag m sev src =
     \<lparr> d_message = m,
       d_range = \<lparr> range_start = \<lparr> line = 4, character = 8 \<rparr>,
                   range_end = \<lparr> line = 4, character = 20 \<rparr> \<rparr>,
       d_severity = sev, d_source = src,
       d_data = Some \<lparr> errorKind = Some ''refinement-error'' \<rparr> \<rparr>"

text \<open>The same diagnostic without a \<open>data\<close> payload.\<close>

definition diagNoData :: "string \<Rightarrow> DiagnosticSeverity \<Rightarrow> string option \<Rightarrow> LJDiagnostic" where
  "diagNoData m sev src = (diag m sev src)\<lparr>d_data := None\<rparr>"

definition exampleUri :: uri where
  "exampleUri = \<lparr> fsPath = ''/ws/src/Main.java'' \<rparr>"

definition exampleError :: "(string, string, (string \<times> string) list) RefinementError" where
  "exampleError =
     \<lparr> message = ''first'',
       range_e = \<lparr> range_start = \<lparr> line = 4, character = 8 \<rparr>,
                   range_end = \<lparr> line = 4, character = 20 \<rparr> \<rparr>,
       severity = Error, file_e = ''/ws/src/Main.java'', kind = Some ''refinement-error'',
       expected = ''_ > 0'', found = ''-8'', translationTable = [(''#a_1'', ''a'')] \<rparr>"

definition joinPath :: "string list \<Rightarrow> string" where
  "joinPath segments = concat (map ((#) CHR ''/'') segments)"

definition exampleEnv :: env where
  "exampleEnv =
     \<lparr> jarIsPresent = True, javaExecutable = Some ''/usr/bin/java'',
       availablePort = Inr 54321, extensionPath = ''ext'', pathResolve = joinPath,
       workspaceFolders = [''/ws''], newProcess = 1, newClient = 2,
       connectResult = Inr 3, startError = None,
       connectTeardown = ok, initTeardown = ok \<rparr>"

section \<open>Routing of diagnostics\<close>

lemmas route_defs =
  handleDiagnostics_def sendMessage_def updateStatusBar_def emit_def Let_def

text \<open>What \<open>handleDiagnostics\<close> does with the diagnostic it has found.\<close>

lemma handleDiagnostics_found:
  assumes "find isEngineError ds = Some d"
  shows "handleDiagnostics K u ds s =
           (case d_data d of
              None \<Rightarrow> (Some ''TypeError'', s)
            | Some data \<Rightarrow>
                (None,
                 s\<lparr> errorDiagnostic :=
                      Some \<lparr> message = d_message d, range_e = d_range d,
                             severity = d_severity d, file_e = fsPath u,
                             kind = errorKind data,
                             expected = EXAMPLE_EXPECTED K, found = EXAMPLE_DERIVATION_NODE K,
                             translationTable = EXAMPLE_TRANSLATION_TABLE K \<rparr>,
                    statusBar := Some Failed,
                    trace := trace s
                      @ SendMessage (RefinementErrorMsg (Some
                           \<lparr> message = d_message d, range_e = d_range d,
                             severity = d_severity d, file_e = fsPath u,
                             kind = errorKind data,
                             expected = EXAMPLE_EXPECTED K, found = EXAMPLE_DERIVATION_NODE K,
                             translationTable = EXAMPLE_TRANSLATION_TABLE K \<rparr>))
                      # (if view s
                         then [PostMessage (RefinementErrorMsg (Some
                           \<lparr> message = d_message d, range_e = d_range d,
                             severity = d_severity d, file_e = fsPath u,
                             kind = errorKind data,
                             expected = EXAMPLE_EXPECTED K, found = EXAMPLE_DERIVATION_NODE K,
                             translationTable = EXAMPLE_TRANSLATION_TABLE K \<rparr>))]
                         else [])
                      @ [SetStatus Failed] \<rparr>))"
  using assms by (cases "d_data d") (simp_all add: route_defs)

lemma handleDiagnostics_not_found:
  assumes "find isEngineError ds = None"
  shows "handleDiagnostics K u ds s =
           (None,
            s\<lparr> errorDiagnostic := None, statusBar := Some Passed,
               trace := trace s @ SendMessage (RefinementErrorMsg None)
                          # (if view s then [PostMessage (RefinementErrorMsg None)] else [])
                          @ [SetStatus Passed] \<rparr>)"
  using assms by (simp add: route_defs)

lemma find_first_engine_error:
  assumes "i < length ds"
    and "d_severity (ds ! i) = Error \<and> d_source (ds ! i) = Some ''liquidjava''"
    and "\<forall>j<i. \<not> (d_severity (ds ! j) = Error \<and> d_source (ds ! j) = Some ''liquidjava'')"
  shows "find isEngineError ds = Some (ds ! i)"
  using assms by (auto simp: find_Some_iff isEngineError_def)

text \<open>
  Claim C7, as the code has it. Of a routed set of diagnostics, the only one that can
  become the active refinement error is the first, in the order of the set, whose
  severity is \<open>Error\<close> and whose source is \<open>liquidjava\<close>. When it carries a \<open>data\<close>
  payload, the call returns, \<open>errorDiagnostic\<close> is built from it, the error is sent to
  the webview provider and the status is \<open>failed\<close>. When it carries none, the call throws
  a \<open>TypeError\<close> and leaves the state as it was: nothing is sent, and no later
  diagnostic is taken in its place. A call that returns with an active error has found
  such a diagnostic, so diagnostics of other sources or of a lower severity are never
  selected.
\<close>

theorem handleDiagnostics_first_engine_error:
  "(\<forall>i<length ds.
      d_severity (ds ! i) = Error \<and> d_source (ds ! i) = Some ''liquidjava'' \<and>
      (\<forall>j<i. \<not> (d_severity (ds ! j) = Error \<and> d_source (ds ! j) = Some ''liquidjava'')) \<longrightarrow>
      (case d_data (ds ! i) of
         None \<Rightarrow> handleDiagnostics K u ds s = (Some ''TypeError'', s)
       | Some data \<Rightarrow>
           handleDiagnostics K u ds s =
             (None,
              s\<lparr> errorDiagnostic :=
                   Some \<lparr> message = d_message (ds ! i), range_e = d_range (ds ! i),
                          severity = Error, file_e = fsPath u, kind = errorKind data,
                          expected = EXAMPLE_EXPECTED K, found = EXAMPLE_DERIVATION_NODE K,
                          translationTable = EXAMPLE_TRANSLATION_TABLE K \<rparr>,
                 statusBar := Some Failed,
                 trace := trace s
                   @ SendMessage (RefinementErrorMsg (Some
                        \<lparr> message = d_message (ds ! i), range_e = d_range (ds ! i),
                          severity = Error, file_e = fsPath u, kind = errorKind data,
                          expected = EXAMPLE_EXPECTED K, found = EXAMPLE_DERIVATION_NODE K,
                          translationTable = EXAMPLE_TRANSLATION_TABLE K \<rparr>))
                   # (if view s
                      then [PostMessage (RefinementErrorMsg (Some
                        \<lparr> message = d_message (ds ! i), range_e = d_range (ds ! i),
                          severity = Error, file_e = fsPath u, kind = errorKind data,
                          expected = EXAMPLE_EXPECTED K, found = EXAMPLE_DERIVATION_NODE K,
                          translationTable = EXAMPLE_TRANSLATION_TABLE K \<rparr>))]
                      else [])
                   @ [SetStatus Failed] \<rparr>)))
   \<and> (fst (handleDiagnostics K u ds s) = None \<and>
        errorDiagnostic (snd (handleDiagnostics K u ds s)) \<noteq> None \<longrightarrow>
        (\<exists>i<length ds.
           d_severity (ds ! i) = Error \<and> d_source (ds ! i) = Some ''liquidjava'' \<and>
           (\<forall>j<i. \<not> (d_severity (ds ! j) = Error \<and> d_source (ds ! j) = Some ''liquidjava''))))"
proof (intro conjI allI impI)
  fix i
  assume i: "i < length ds"
    and h: "d_severity (ds ! i) = Error \<and> d_source (ds ! i) = Some ''liquidjava'' \<and>
      (\<forall>j<i. \<not> (d_severity (ds ! j) = Error \<and> d_source (ds ! j) = Some ''liquidjava''))"
  have found: "find isEngineError ds = Some (ds ! i)"
    using i h by (intro find_first_engine_error) simp_all
  show "case d_data (ds ! i) of
         None \<Rightarrow> handleDiagnostics K u ds s = (Some ''TypeError'', s)
       | Some data \<Rightarrow>
           handleDiagnostics K u ds s =
             (None,
              s\<lparr> errorDiagnostic :=
                   Some \<lparr> message = d_message (ds ! i), range_e = d_range (ds ! i),
                          severity = Error, file_e = fsPath u, kind = errorKind data,
                          expected = EXAMPLE_EXPECTED K, found = EXAMPLE_DERIVATION_NODE K,
                          translationTable = EXAMPLE_TRANSLATION_TABLE K \<rparr>,
                 statusBar := Some Failed,
                 trace := trace s
                   @ SendMessage (RefinementErrorMsg (Some
                        \<lparr> message = d_message (ds ! i), range_e = d_range (ds ! i),
                          severity = Error, file_e = fsPath u, kind = errorKind data,
                          expected = EXAMPLE_EXPECTED K, found = EXAMPLE_DERIVATION_NODE K,
                          translationTable = EXAMPLE_TRANSLATION_TABLE K \<rparr>))
                   # (if view s
                      then [PostMessage (RefinementErrorMsg (Some
                        \<lparr> message = d_message (ds ! i), range_e = d_range (ds ! i),
                          severity = Error, file_e = fsPath u, kind = errorKind data,
                          expected = EXAMPLE_EXPECTED K, found = EXAMPLE_DERIVATION_NODE K,
                          translationTable = EXAMPLE_TRANSLATION_TABLE K \<rparr>))]
                      else [])
                   @ [SetStatus Failed] \<rparr>)"
    using handleDiagnostics_found [OF found, of K u s] h
    by (cases "d_data (ds ! i)") simp_all
next
  assume a: "fst (handleDiagnostics K u ds s) = None \<and>
        errorDiagnostic (snd (handleDiagnostics K u ds s)) \<noteq> None"
  show "\<exists>i<length ds.
           d_severity (ds ! i) = Error \<and> d_source (ds ! i) = Some ''liquidjava'' \<and>
           (\<forall>j<i. \<not> (d_severity (ds ! j) = Error \<and> d_source (ds ! j) = Some ''liquidjava''))"
  proof (cases "find isEngineError ds")
    case None
    then show ?thesis
      using a handleDiagnostics_not_found [OF None, of K u s] by simp
  next
    case (Some d)
    then show ?thesis
      by (auto simp: find_Some_iff isEngineError_def)
  qed
qed

text \<open>
  The set of the spec: an \<open>Error\<close> of another source, then two \<open>Error\<close>s of the engine
  with their payload. The first of the engine, at position 1, becomes the active error.
\<close>

theorem handleDiagnostics_first_engine_error_witness:
  "handleDiagnostics exampleConstants exampleUri
     [diag ''other'' Error (Some ''javac''),
      diag ''first'' Error (Some ''liquidjava''),
      diag ''second'' Error (Some ''liquidjava'')] running =
   (None,
    running\<lparr> errorDiagnostic := Some exampleError, statusBar := Some Failed,
             trace := [SendMessage (RefinementErrorMsg (Some exampleError)),
                       PostMessage (RefinementErrorMsg (Some exampleError)),
                       SetStatus Failed] \<rparr>)"
  using handleDiagnostics_first_engine_error [of "[diag ''other'' Error (Some ''javac''),
         diag ''first'' Error (Some ''liquidjava''),
         diag ''second'' Error (Some ''liquidjava'')]" exampleConstants exampleUri running,
      THEN conjunct1, rule_format, of 1]
  by (simp add: diag_def exampleUri_def exampleConstants_def exampleError_def running_def)

text \<open>
  Claim C7, as stated, fails on a set whose first \<open>Error\<close> of the engine has no \<open>data\<close>
  payload: the call throws, no diagnostic becomes the active refinement error (it was
  \<open>null\<close> and stays so), nothing is sent and the status is not touched, although the
  set holds a second \<open>Error\<close> of the engine with its payload.
\<close>

theorem handleDiagnostics_engine_error_without_data_throws:
  "handleDiagnostics exampleConstants exampleUri
     [diagNoData ''first'' Error (Some ''liquidjava''),
      diag ''second'' Error (Some ''liquidjava''),
      diag ''other'' Error (Some ''javac'')] running =
   (Some ''TypeError'',
    \<lparr> serverProcess = Some 1, client = Some 2, socket = Some 3, errorDiagnostic = None,
      statusBar = Some Passed, view = True, trace = [] \<rparr>)"
  by (simp add: route_defs isEngineError_def diagNoData_def diag_def running_def)

text \<open>
  Claim C8. Routing a set that holds no \<open>Error\<close> of source \<open>liquidjava\<close> (the empty set
  among them) clears \<open>errorDiagnostic\<close>, sends the message with error \<open>null\<close> to the
  webview provider (which posts it when its view is resolved), and sets the status to
  \<open>passed\<close>; it changes nothing else, and it does not throw.
\<close>

theorem handleDiagnostics_no_engine_error_passes:
  assumes "\<forall>d\<in>set ds. \<not> (d_severity d = Error \<and> d_source d = Some ''liquidjava'')"
  shows "handleDiagnostics K u ds s =
           (None,
            s\<lparr> errorDiagnostic := None, statusBar := Some Passed,
               trace := trace s @ SendMessage (RefinementErrorMsg None)
                          # (if view s then [PostMessage (RefinementErrorMsg None)] else [])
                          @ [SetStatus Passed] \<rparr>)"
proof -
  have "find isEngineError ds = None"
    using assms by (simp add: find_None_iff isEngineError_def)
  then show ?thesis
    by (rule handleDiagnostics_not_found)
qed

theorem handleDiagnostics_no_engine_error_passes_witness:
  "handleDiagnostics exampleConstants exampleUri [] running =
     (None,
      running\<lparr> errorDiagnostic := None, statusBar := Some Passed,
               trace := trace running @ SendMessage (RefinementErrorMsg None)
                          # (if view running then [PostMessage (RefinementErrorMsg None)] else [])
                          @ [SetStatus Passed] \<rparr>)
   \<and> handleDiagnostics exampleConstants exampleUri
       [diag ''unused'' Warning (Some ''liquidjava''), diag ''syntax'' Error (Some ''javac'')] running =
     (None,
      running\<lparr> errorDiagnostic := None, statusBar := Some Passed,
               trace := trace running @ SendMessage (RefinementErrorMsg None)
                          # (if view running then [PostMessage (RefinementErrorMsg None)] else [])
                          @ [SetStatus Passed] \<rparr>)"
  using handleDiagnostics_no_engine_error_passes [of "[]" exampleConstants exampleUri running]
    handleDiagnostics_no_engine_error_passes [of "[diag ''unused'' Warning (Some ''liquidjava''), diag ''syntax'' Error (Some ''javac'')]"
          exampleConstants exampleUri running]
  by (simp add: diag_def)

text \<open>
  Claim C10. Every refinement error that \<open>handleDiagnostics\<close> sends to the webview
  provider has the three example constants in \<open>expected\<close>, \<open>found\<close> and
  \<open>translationTable\<close>, whatever the diagnostics are; \<open>file\<close> is the path of the document,
  and \<open>message\<close>, \<open>range\<close>, \<open>severity\<close> and \<open>kind\<close> are those of a diagnostic of the set
  (\<open>kind\<close> that of its \<open>data\<close> payload).
\<close>

theorem refinementError_example_fields:
  assumes "SendMessage (RefinementErrorMsg (Some e))
             \<in> set (drop (length (trace s)) (trace (snd (handleDiagnostics K u ds s))))"
  shows "expected e = EXAMPLE_EXPECTED K \<and> found e = EXAMPLE_DERIVATION_NODE K \<and>
         translationTable e = EXAMPLE_TRANSLATION_TABLE K \<and>
         file_e e = fsPath u \<and>
         (\<exists>d\<in>set ds. message e = d_message d \<and> range_e e = d_range d \<and>
                      severity e = d_severity d \<and>
                      (\<exists>data. d_data d = Some data \<and> kind e = errorKind data))"
proof (cases "find isEngineError ds")
  case None
  then show ?thesis
    using assms by (simp add: route_defs split: if_splits)
next
  case (Some d)
  then have d: "d \<in> set ds"
    by (auto simp: find_Some_iff)
  show ?thesis
  proof (cases "d_data d")
    case None
    then show ?thesis
      using assms handleDiagnostics_found [OF Some, of K u s] by simp
  next
    case (Some data)
    then have "e = \<lparr> message = d_message d, range_e = d_range d,
               severity = d_severity d, file_e = fsPath u, kind = errorKind data,
               expected = EXAMPLE_EXPECTED K, found = EXAMPLE_DERIVATION_NODE K,
               translationTable = EXAMPLE_TRANSLATION_TABLE K \<rparr>"
      using assms handleDiagnostics_found [OF \<open>find isEngineError ds = Some d\<close>, of K u s]
      by (simp split: if_splits)
    then show ?thesis
      using d Some by auto
  qed
qed

theorem refinementError_example_fields_witness:
  "expected exampleError = EXAMPLE_EXPECTED exampleConstants
   \<and> found exampleError = EXAMPLE_DERIVATION_NODE exampleConstants
   \<and> translationTable exampleError = EXAMPLE_TRANSLATION_TABLE exampleConstants
   \<and> SendMessage (RefinementErrorMsg (Some exampleError))
       \<in> set (drop (length (trace running))
                 (trace (snd (handleDiagnostics exampleConstants exampleUri
                                [diag ''first'' Error (Some ''liquidjava'')] running))))"
proof -
  have h: "SendMessage (RefinementErrorMsg (Some exampleError))
       \<in> set (drop (length (trace running))
                 (trace (snd (handleDiagnostics exampleConstants exampleUri
                                [diag ''first'' Error (Some ''liquidjava'')] running))))"
    by (simp add: route_defs isEngineError_def diag_def exampleUri_def
        exampleConstants_def exampleError_def running_def)
  show ?thesis
    using h refinementError_example_fields [OF h] by simp
qed

section \<open>Stopping the extension\<close>

lemmas stop_defs =
  stop_begin_def stop_after_client_def stop_after_kill_def stopExtension_def killProcess_def
  logInfo_def logError_def updateStatusBar_def emit_def Let_def

lemmas event_defs =
  callStop_def resume_def onServerClose_def onServerError_def onDidSaveTextDocument_def
  onDidReceiveMessage_def resolveWebviewView_def sendMessage_def

lemma decimal_small: "n < 10 \<Longrightarrow> decimal n acc = digit n # acc"
  by (subst decimal.simps) simp

lemma decimal_large: "\<not> n < 10 \<Longrightarrow> decimal n acc = decimal (n div 10) (digit n # acc)"
  by (subst decimal.simps) simp

lemmas number_defs =
  codeToString_def intToString_def toString_def decimal_small decimal_large digit_def

text \<open>A call when nothing is left to stop writes one log line and changes nothing else.\<close>

lemma stopExtension_stopped:
  assumes "client s = None" and "serverProcess s = None" and "socket s = None"
  shows "stopExtension reason td s =
           (None, s\<lparr>trace := trace s @ [Log Client Info ''Extension already stopped'']\<rparr>)"
  using assms by (simp add: stop_defs)

text \<open>
  A call when something is left to stop and \<open>killProcess\<close> does not fail: whatever
  \<open>client.stop()\<close> and \<open>socket.destroy()\<close> answer, the call returns normally, each
  error is logged, every step runs, and the three references are cleared.
\<close>

lemma stopExtension_live:
  assumes "client s \<noteq> None \<or> serverProcess s \<noteq> None \<or> socket s \<noteq> None"
    and "killProcessError td = None"
  shows "stopExtension reason td s =
           (None,
            s\<lparr> serverProcess := None, client := None, socket := None,
               statusBar := Some Stopped,
               trace := trace s
                 @ [Log Client Info (''Stopping LiquidJava extension: '' @ reason),
                    SetStatus Stopped]
                 @ clientEffects td (client s) @ socketEffects td (socket s)
                 @ processEffects (serverProcess s) \<rparr>)"
  using assms
  by (auto simp: stop_defs clientEffects_def socketEffects_def processEffects_def
      split: option.splits)

lemma stopRepeatedly_stopped:
  assumes "client s = None" and "serverProcess s = None" and "socket s = None"
  shows "stopRepeatedly calls s =
           (replicate (length calls) None,
            s\<lparr>trace := trace s
                 @ replicate (length calls) (Log Client Info ''Extension already stopped'')\<rparr>)"
  using assms
proof (induction calls arbitrary: s)
  case Nil
  then show ?case by simp
next
  case (Cons call calls)
  obtain reason td where call: "call = (reason, td)" by (cases call)
  let ?s1 = "s\<lparr>trace := trace s @ [Log Client Info ''Extension already stopped'']\<rparr>"
  have "stopRepeatedly calls ?s1 =
          (replicate (length calls) None,
           ?s1\<lparr>trace := trace ?s1
                 @ replicate (length calls) (Log Client Info ''Extension already stopped'')\<rparr>)"
    using Cons.prems by (intro Cons.IH) simp_all
  then show ?case
    using Cons.prems by (simp add: call stopExtension_stopped replicate_app_Cons_same)
qed

text \<open>
  Claim C1, as the code has it. Calls of \<open>stopExtension\<close> that run one after the other,
  the first from a state in which a client, a socket or a server process exists and in
  which \<open>killProcess\<close> does not fail: the first call logs the stop, sets the status to
  \<open>stopped\<close>, stops the client once if there is one, destroys the socket once if there is
  one, kills the process once if there is one, and clears the three references; every
  later call returns at the guard, and adds the log line "Extension already stopped" and
  nothing else. No call throws.
\<close>

theorem stopExtension_sequential_calls:
  assumes "client s \<noteq> None \<or> serverProcess s \<noteq> None \<or> socket s \<noteq> None"
    and "killProcessError td = None"
  shows "stopRepeatedly ((reason, td) # calls) s =
           (replicate (Suc (length calls)) None,
            s\<lparr> serverProcess := None, client := None, socket := None,
               statusBar := Some Stopped,
               trace := trace s
                 @ [Log Client Info (''Stopping LiquidJava extension: '' @ reason),
                    SetStatus Stopped]
                 @ clientEffects td (client s) @ socketEffects td (socket s)
                 @ processEffects (serverProcess s)
                 @ replicate (length calls) (Log Client Info ''Extension already stopped'') \<rparr>)"
proof -
  let ?s1 = "s\<lparr> serverProcess := None, client := None, socket := None,
               statusBar := Some Stopped,
               trace := trace s
                 @ [Log Client Info (''Stopping LiquidJava extension: '' @ reason),
                    SetStatus Stopped]
                 @ clientEffects td (client s) @ socketEffects td (socket s)
                 @ processEffects (serverProcess s) \<rparr>"
  have first: "stopExtension reason td s = (None, ?s1)"
    using assms by (rule stopExtension_live)
  have rest: "stopRepeatedly calls ?s1 =
          (replicate (length calls) None,
           ?s1\<lparr>trace := trace ?s1
                 @ replicate (length calls) (Log Client Info ''Extension already stopped'')\<rparr>)"
    by (rule stopRepeatedly_stopped) simp_all
  show ?thesis
    unfolding stopRepeatedly.simps first prod.case rest by simp
qed

theorem stopExtension_sequential_calls_witness:
  "client running = Some 2 \<and> killProcessError ok = None
   \<and> stopRepeatedly
       [(''Extension was deactivated'', ok), (''Extension stopped'', ok),
        (''Extension was disposed'', ok)] running =
     ([None, None, None],
      running\<lparr> serverProcess := None, client := None, socket := None,
               statusBar := Some Stopped,
               trace := [Log Client Info ''Stopping LiquidJava extension: Extension was deactivated'',
                         SetStatus Stopped, ClientStop 2, SocketDestroy 3, KillProcess 1,
                         Log Client Info ''Extension already stopped'',
                         Log Client Info ''Extension already stopped''] \<rparr>)"
proof -
  have h1: "client running \<noteq> None \<or> serverProcess running \<noteq> None \<or> socket running \<noteq> None"
    by (simp add: running_def)
  have h2: "killProcessError ok = None"
    by (simp add: ok_def)
  show ?thesis
    using h2
      stopExtension_sequential_calls [OF h1 h2, of "''Extension was deactivated''"
        "[(''Extension stopped'', ok), (''Extension was disposed'', ok)]"]
    by (simp add: running_def ok_def clientEffects_def socketEffects_def processEffects_def)
qed

text \<open>
  Claim C1, as stated, fails when calls overlap. \<open>deactivate\<close> calls \<open>stopExtension\<close>,
  which is suspended at \<open>await client?.stop()\<close> with the client reference still set; the
  client changes to \<open>State.Stopped\<close> and its listener calls \<open>stopExtension\<close> again. The
  second call passes the guard: the stop is logged twice, the status is set twice,
  \<open>client.stop()\<close> is called twice, and, both calls being resumed, \<open>killProcess\<close> is
  called twice on the same process.
\<close>

theorem stopExtension_overlapping_calls_repeat_teardown:
  "trace (st (run exampleConstants
       [Deactivate ok, DidChangeState StateStopped ok,
        Resume 0 ok, Resume 1 ok, Resume 0 ok, Resume 0 ok]
       \<lparr> st = running, pending = [], rejections = [] \<rparr>)) =
     [Log Client Info ''Deactivating LiquidJava extension...'',
      Log Client Info ''Stopping LiquidJava extension: Extension was deactivated'',
      SetStatus Stopped, ClientStop 2,
      Log Client Info ''Stopping LiquidJava extension: Extension stopped'',
      SetStatus Stopped, ClientStop 2,
      SocketDestroy 3, KillProcess 1, KillProcess 1]"
  by (simp add: running_def ok_def event_defs stop_defs)

text \<open>
  Claim C3 at a failing input: process 1, client 2 and socket 3 exist and \<open>killProcess\<close>
  rejects. The client and the socket are torn down and their references cleared, but the
  rejection leaves \<open>stopExtension\<close> as the rejection of its own promise, no log line
  records it, and \<open>serverProcess\<close> still holds the process.
\<close>

theorem stopExtension_kill_error_propagates:
  "stopExtension ''Extension was disposed''
     \<lparr> clientStopError = None, socketDestroyError = None,
       killProcessError = Some ''kill EPERM'' \<rparr>
     running =
   (Some ''kill EPERM'',
    running\<lparr> client := None, socket := None, statusBar := Some Stopped,
             trace := [Log Client Info ''Stopping LiquidJava extension: Extension was disposed'',
                       SetStatus Stopped, ClientStop 2, SocketDestroy 3, KillProcess 1] \<rparr>)
   \<and> serverProcess (snd (stopExtension ''Extension was disposed''
         \<lparr> clientStopError = None, socketDestroyError = None,
           killProcessError = Some ''kill EPERM'' \<rparr>
         running)) = Some 1"
  by (simp add: running_def stop_defs)

section \<open>Process events\<close>

text \<open>
  Claim C4, as the code has it. The listener of the process event \<open>error\<close>, which reports
  a failure to spawn, writes the log line "Failed to start: ..." on the server log and
  does nothing else: no message is shown to the user, the status bar is not touched, no
  call of \<open>stopExtension\<close> is started, no reference is cleared.
\<close>

theorem onServerError_only_logs:
  "step K (ServerError err) c =
     c\<lparr>st := (st c)\<lparr>trace := trace (st c) @ [Log Server Err (''Failed to start: '' @ err)]\<rparr>\<rparr>"
  by (simp add: event_defs stop_defs)

text \<open>
  Claim C4, as stated, fails: after the spawn, with the status at \<open>loading\<close>, the event
  \<open>error\<close> leaves the process reference, the status and the list of suspended stops as
  they were, and shows no message.
\<close>

theorem spawn_error_no_message_no_stop:
  "step exampleConstants (ServerError ''spawn java ENOENT'')
       \<lparr> st = starting, pending = [], rejections = [] \<rparr> =
     \<lparr> st = \<lparr> serverProcess = Some 1, client = None, socket = None, errorDiagnostic = None,
              statusBar = Some Loading, view = False,
              trace = [Log Server Err ''Failed to start: spawn java ENOENT''] \<rparr>,
       pending = [], rejections = [] \<rparr>"
  by (simp add: starting_def event_defs stop_defs)

text \<open>
  Claim C5, as the code has it. In a state with a client, the event \<open>close\<close> with exit
  code \<open>code\<close> logs "Process exited with code ..." and calls \<open>client.stop()\<close>; it does
  not touch the status. When the client then reports \<open>State.Stopped\<close>, its listener calls
  \<open>stopExtension\<close>, which sets the status to \<open>stopped\<close> and, resumed twice with no other
  call in between and with \<open>killProcess\<close> not failing, clears the three references. A
  call of \<open>stopExtension\<close> after that adds the log line "Extension already stopped" and
  nothing else.
\<close>

theorem process_exit_then_session_end:
  assumes "client s = Some c" and "killProcessError td = None"
  shows "run K [ServerClose code, DidChangeState StateStopped td, Resume 0 td, Resume 0 td,
                Dispose td']
           \<lparr> st = s, pending = [], rejections = [] \<rparr> =
         \<lparr> st = s\<lparr> serverProcess := None, client := None, socket := None,
                   statusBar := Some Stopped,
                   trace := trace s
                     @ [Log Server Info (''Process exited with code '' @ codeToString code),
                        ClientStop c,
                        Log Client Info ''Stopping LiquidJava extension: Extension stopped'',
                        SetStatus Stopped]
                     @ clientEffects td (Some c) @ socketEffects td (socket s)
                     @ processEffects (serverProcess s)
                     @ [Log Client Info ''Extension already stopped''] \<rparr>,
           pending = [], rejections = [] \<rparr>"
  using assms
  by (cases "socket s"; cases "serverProcess s"; cases "clientStopError td";
      cases "socketDestroyError td")
     (simp_all add: event_defs stop_defs clientEffects_def socketEffects_def processEffects_def)

theorem process_exit_then_session_end_witness:
  "client running = Some 2 \<and> killProcessError ok = None
   \<and> run exampleConstants
        [ServerClose (Some 1), DidChangeState StateStopped ok, Resume 0 ok, Resume 0 ok,
         Dispose ok]
        \<lparr> st = running, pending = [], rejections = [] \<rparr> =
      \<lparr> st = running\<lparr> serverProcess := None, client := None, socket := None,
                   statusBar := Some Stopped,
                   trace := [Log Server Info ''Process exited with code 1'', ClientStop 2,
                             Log Client Info ''Stopping LiquidJava extension: Extension stopped'',
                             SetStatus Stopped, ClientStop 2, SocketDestroy 3, KillProcess 1,
                             Log Client Info ''Extension already stopped''] \<rparr>,
        pending = [], rejections = [] \<rparr>"
proof -
  have h1: "client running = Some 2"
    by (simp add: running_def)
  have h2: "killProcessError ok = None"
    by (simp add: ok_def)
  show ?thesis
    using h1 h2
      process_exit_then_session_end [OF h1 h2, of exampleConstants "Some 1" ok]
    by (simp add: running_def ok_def clientEffects_def socketEffects_def processEffects_def
        number_defs)
qed

text \<open>
  Claim C5, as stated, fails on its last part: a call of \<open>stopExtension\<close> made while the
  one started by the end of the session is suspended is not a no-op. Here the process
  exits with code 1, the client reports \<open>State.Stopped\<close>, and the extension is disposed
  of before the first call is resumed: the second call logs the stop again, sets the
  status again, calls \<open>client.stop()\<close> again, and is suspended as well.
\<close>

theorem stop_during_stop_not_noop:
  "run exampleConstants [ServerClose (Some 1), DidChangeState StateStopped ok, Dispose ok]
       \<lparr> st = running, pending = [], rejections = [] \<rparr> =
   \<lparr> st = \<lparr> serverProcess = Some 1, client = Some 2, socket = Some 3, errorDiagnostic = None,
            statusBar = Some Stopped, view = True,
            trace = [Log Server Info ''Process exited with code 1'', ClientStop 2,
                     Log Client Info ''Stopping LiquidJava extension: Extension stopped'',
                     SetStatus Stopped, ClientStop 2,
                     Log Client Info ''Stopping LiquidJava extension: Extension was disposed'',
                     SetStatus Stopped, ClientStop 2] \<rparr>,
     pending = [AfterClientStop None, AfterClientStop None], rejections = [] \<rparr>"
  by (simp add: running_def ok_def event_defs stop_defs number_defs)


section \<open>The active diagnostic over the life of the extension\<close>

lemma errorDiagnostic_stop_begin:
  "errorDiagnostic (snd (stop_begin reason td s)) = errorDiagnostic s"
  by (simp add: stop_defs split: option.splits)

lemma errorDiagnostic_stop_after_client:
  "errorDiagnostic (snd (stop_after_client r td s)) = errorDiagnostic s"
  by (simp add: stop_defs split: option.splits)

lemma errorDiagnostic_stop_after_kill:
  "errorDiagnostic (snd (stop_after_kill r s)) = errorDiagnostic s"
  by (simp add: stop_defs split: option.splits)

lemma errorDiagnostic_stopExtension:
  "errorDiagnostic (snd (stopExtension reason td s)) = errorDiagnostic s"
proof (cases "stop_begin reason td s")
  case (Pair b s1)
  have s1: "errorDiagnostic s1 = errorDiagnostic s"
    using errorDiagnostic_stop_begin [of reason td s] Pair by simp
  show ?thesis
  proof (cases b)
    case None
    then show ?thesis using Pair s1 by (simp add: stopExtension_def)
  next
    case (Some r)
    obtain r' s2 where ac: "stop_after_client r td s1 = (r', s2)"
      by (cases "stop_after_client r td s1")
    have "errorDiagnostic s2 = errorDiagnostic s1"
      using errorDiagnostic_stop_after_client [of r td s1] ac by simp
    then show ?thesis
      using Pair Some ac s1 errorDiagnostic_stop_after_kill [of r' s2]
      by (simp add: stopExtension_def)
  qed
qed

lemma errorDiagnostic_callStop:
  "errorDiagnostic (st (callStop reason td c)) = errorDiagnostic (st c)"
  using errorDiagnostic_stop_begin [of reason td "st c"]
  by (cases "stop_begin reason td (st c)") (simp add: callStop_def split: option.splits)

lemma errorDiagnostic_resume:
  "errorDiagnostic (st (resume i td c)) = errorDiagnostic (st c)"
proof (cases "i < length (pending c)")
  case False
  then show ?thesis by (simp add: resume_def)
next
  case True
  show ?thesis
  proof (cases "pending c ! i")
    case (AfterClientStop r)
    then show ?thesis
      using True errorDiagnostic_stop_after_client [of r td "st c"]
      by (cases "stop_after_client r td (st c)") (simp add: resume_def)
  next
    case (AfterKillProcess r)
    then show ?thesis
      using True errorDiagnostic_stop_after_kill [of r "st c"]
      by (cases "stop_after_kill r (st c)") (simp add: resume_def)
  qed
qed

lemma errorDiagnostic_route_none:
  assumes "\<forall>d\<in>set ds. \<not> (d_severity d = Error \<and> d_source d = Some ''liquidjava'')"
  shows "errorDiagnostic (st (step K (Diagnostics u ds) c)) = None"
proof -
  have "find isEngineError ds = None"
    using assms by (simp add: find_None_iff isEngineError_def)
  then show ?thesis
    using handleDiagnostics_not_found [of ds K u "st c"] by simp
qed

lemma errorDiagnostic_route_first:
  assumes "i < length ds"
    and "d_severity (ds ! i) = Error \<and> d_source (ds ! i) = Some ''liquidjava''"
    and "\<forall>j<i. \<not> (d_severity (ds ! j) = Error \<and> d_source (ds ! j) = Some ''liquidjava'')"
  shows "case d_data (ds ! i) of
           None \<Rightarrow>
             errorDiagnostic (st (step K (Diagnostics u ds) c)) = errorDiagnostic (st c)
         | Some data \<Rightarrow>
             errorDiagnostic (st (step K (Diagnostics u ds) c)) \<noteq> None"
proof -
  have found: "find isEngineError ds = Some (ds ! i)"
    using assms by (rule find_first_engine_error)
  show ?thesis
    using handleDiagnostics_found [OF found, of K u "st c"]
    by (cases "d_data (ds ! i)") simp_all
qed

lemma errorDiagnostic_step:
  assumes "\<And>u ds. e \<noteq> Diagnostics u ds"
  shows "errorDiagnostic (st (step K e c)) = errorDiagnostic (st c)"
proof (cases e)
  case (Diagnostics u ds)
  then show ?thesis using assms by simp
next
  case (WebviewMessage ty)
  then show ?thesis
    by (simp add: onDidReceiveMessage_def sendMessage_def emit_def Let_def)
qed (simp_all add: errorDiagnostic_callStop errorDiagnostic_resume onServerClose_def
       onServerError_def onDidSaveTextDocument_def resolveWebviewView_def logInfo_def
       logError_def updateStatusBar_def emit_def Let_def split: option.splits)

lemma errorDiagnostic_run:
  assumes "\<forall>u ds. Diagnostics u ds \<notin> set evs"
  shows "errorDiagnostic (st (run K evs c)) = errorDiagnostic (st c)"
  using assms
proof (induction evs arbitrary: c)
  case Nil
  then show ?case by simp
next
  case (Cons e evs)
  have "errorDiagnostic (st (run K evs (step K e c))) = errorDiagnostic (st (step K e c))"
    using Cons.prems by (intro Cons.IH) simp
  moreover have "errorDiagnostic (st (step K e c)) = errorDiagnostic (st c)"
    using Cons.prems by (intro errorDiagnostic_step) auto
  ultimately show ?case by simp
qed

text \<open>
  Claim C2, as the code has it. \<open>errorDiagnostic\<close> is written by \<open>handleDiagnostics\<close>
  and by nothing else: over any sequence of callbacks in which no set of diagnostics is
  routed (calls of \<open>stopExtension\<close> and their resumptions among them) it keeps its
  value, so stopping does not clear it. Routing a set that holds no \<open>Error\<close> of source
  \<open>liquidjava\<close> makes it null; routing a set whose first such \<open>Error\<close> carries a
  \<open>data\<close> payload makes it non-null; routing a set whose first such \<open>Error\<close> carries
  none throws and leaves it as it was.
\<close>

theorem errorDiagnostic_written_only_by_handleDiagnostics:
  "((\<forall>u ds. Diagnostics u ds \<notin> set evs) \<longrightarrow>
      errorDiagnostic (st (run K evs c)) = errorDiagnostic (st c))
   \<and> ((\<forall>d\<in>set ds. \<not> (d_severity d = Error \<and> d_source d = Some ''liquidjava'')) \<longrightarrow>
        errorDiagnostic (st (step K (Diagnostics u ds) c')) = None)
   \<and> (\<forall>i<length ds.
        d_severity (ds ! i) = Error \<and> d_source (ds ! i) = Some ''liquidjava'' \<and>
        (\<forall>j<i. \<not> (d_severity (ds ! j) = Error \<and> d_source (ds ! j) = Some ''liquidjava'')) \<longrightarrow>
        (case d_data (ds ! i) of
           None \<Rightarrow>
             errorDiagnostic (st (step K (Diagnostics u ds) c')) = errorDiagnostic (st c')
         | Some data \<Rightarrow>
             errorDiagnostic (st (step K (Diagnostics u ds) c')) \<noteq> None))"
proof (intro conjI allI impI)
  assume "\<forall>u ds. Diagnostics u ds \<notin> set evs"
  then show "errorDiagnostic (st (run K evs c)) = errorDiagnostic (st c)"
    by (rule errorDiagnostic_run)
next
  assume "\<forall>d\<in>set ds. \<not> (d_severity d = Error \<and> d_source d = Some ''liquidjava'')"
  then show "errorDiagnostic (st (step K (Diagnostics u ds) c')) = None"
    by (rule errorDiagnostic_route_none)
next
  fix i
  assume "i < length ds"
    and "d_severity (ds ! i) = Error \<and> d_source (ds ! i) = Some ''liquidjava'' \<and>
        (\<forall>j<i. \<not> (d_severity (ds ! j) = Error \<and> d_source (ds ! j) = Some ''liquidjava''))"
  then show "case d_data (ds ! i) of
           None \<Rightarrow>
             errorDiagnostic (st (step K (Diagnostics u ds) c')) = errorDiagnostic (st c')
         | Some data \<Rightarrow>
             errorDiagnostic (st (step K (Diagnostics u ds) c')) \<noteq> None"
    by (intro errorDiagnostic_route_first) simp_all
qed

text \<open>
  A stop that runs to its end keeps the error; a set with an \<open>Error\<close> of the engine and
  its payload sets one; a set whose \<open>Error\<close> of the engine has no payload keeps the error
  of the round before.
\<close>

theorem errorDiagnostic_written_only_by_handleDiagnostics_witness:
  "errorDiagnostic (st (run exampleConstants [Deactivate ok, Resume 0 ok, Resume 0 ok]
         \<lparr> st = running\<lparr>errorDiagnostic := Some exampleError\<rparr>, pending = [],
           rejections = [] \<rparr>)) = Some exampleError
   \<and> errorDiagnostic (st (step exampleConstants
         (Diagnostics exampleUri [diag ''first'' Error (Some ''liquidjava'')])
         \<lparr> st = running, pending = [], rejections = [] \<rparr>)) \<noteq> None
   \<and> errorDiagnostic (st (step exampleConstants
         (Diagnostics exampleUri [diagNoData ''next'' Error (Some ''liquidjava'')])
         \<lparr> st = running\<lparr>errorDiagnostic := Some exampleError\<rparr>, pending = [],
           rejections = [] \<rparr>)) = Some exampleError"
proof -
  have h: "\<forall>u ds. Diagnostics u ds \<notin> set [Deactivate ok, Resume 0 ok, Resume 0 ok]"
    by simp
  have frame: "errorDiagnostic (st (run exampleConstants [Deactivate ok, Resume 0 ok, Resume 0 ok]
         \<lparr> st = running\<lparr>errorDiagnostic := Some exampleError\<rparr>, pending = [],
           rejections = [] \<rparr>)) = Some exampleError"
    using h
      errorDiagnostic_written_only_by_handleDiagnostics
        [where evs = "[Deactivate ok, Resume 0 ok, Resume 0 ok]" and K = exampleConstants
           and c = "\<lparr> st = running\<lparr>errorDiagnostic := Some exampleError\<rparr>, pending = [],
                      rejections = [] \<rparr>", THEN conjunct1]
    by simp
  have with_data: "errorDiagnostic (st (step exampleConstants
         (Diagnostics exampleUri [diag ''first'' Error (Some ''liquidjava'')])
         \<lparr> st = running, pending = [], rejections = [] \<rparr>)) \<noteq> None"
    using errorDiagnostic_written_only_by_handleDiagnostics
        [where K = exampleConstants and u = exampleUri
           and ds = "[diag ''first'' Error (Some ''liquidjava'')]"
           and c' = "\<lparr> st = running, pending = [], rejections = [] \<rparr>",
         THEN conjunct2, THEN conjunct2, rule_format, of 0]
    by (simp add: diag_def)
  have without_data: "errorDiagnostic (st (step exampleConstants
         (Diagnostics exampleUri [diagNoData ''next'' Error (Some ''liquidjava'')])
         \<lparr> st = running\<lparr>errorDiagnostic := Some exampleError\<rparr>, pending = [],
           rejections = [] \<rparr>)) = Some exampleError"
    using errorDiagnostic_written_only_by_handleDiagnostics
        [where K = exampleConstants and u = exampleUri
           and ds = "[diagNoData ''next'' Error (Some ''liquidjava'')]"
           and c' = "\<lparr> st = running\<lparr>errorDiagnostic := Some exampleError\<rparr>, pending = [],
                       rejections = [] \<rparr>",
         THEN conjunct2, THEN conjunct2, rule_format, of 0]
    by (simp add: diagNoData_def diag_def)
  show ?thesis
    using frame with_data without_data by simp
qed

text \<open>
  Claim C2, as stated, fails: a set with an \<open>Error\<close> of the engine is routed, then the
  extension is deactivated and the stop runs to its end. No client, socket or process is
  left, the status is \<open>stopped\<close>, no stop is suspended, and \<open>errorDiagnostic\<close> still
  holds the error.
\<close>

theorem errorDiagnostic_remains_after_stop:
  "run exampleConstants
     [Diagnostics exampleUri [diag ''first'' Error (Some ''liquidjava'')],
      Deactivate ok, Resume 0 ok, Resume 0 ok]
     \<lparr> st = running, pending = [], rejections = [] \<rparr> =
   \<lparr> st = \<lparr> serverProcess = None, client = None, socket = None,
            errorDiagnostic = Some exampleError,
            statusBar = Some Stopped, view = True,
            trace = [SendMessage (RefinementErrorMsg (Some exampleError)),
                     PostMessage (RefinementErrorMsg (Some exampleError)),
                     SetStatus Failed,
                     Log Client Info ''Deactivating LiquidJava extension...'',
                     Log Client Info ''Stopping LiquidJava extension: Extension was deactivated'',
                     SetStatus Stopped, ClientStop 2, SocketDestroy 3, KillProcess 1] \<rparr>,
     pending = [], rejections = [] \<rparr>"
  by (simp add: running_def ok_def event_defs stop_defs route_defs isEngineError_def
      diag_def exampleUri_def exampleConstants_def exampleError_def)

section \<open>Activation\<close>

text \<open>
  Claim C6. When the jar is absent from the workspace, or no Java executable is found,
  \<open>activate\<close> returns after one message to the user (a warning for the jar, an error
  message for Java) and one line on the error log, with the status at \<open>stopped\<close>. Among
  its effects there is no port allocation and no spawn, and it leaves \<open>serverProcess\<close>,
  \<open>client\<close> and \<open>socket\<close> as they were.
\<close>

theorem activate_prerequisite_missing:
  assumes "\<not> jarIsPresent E \<or> javaExecutable E = None \<or> javaExecutable E = Some []"
  shows "activate K E s =
           (Returned,
            s\<lparr> statusBar := Some Stopped, view := False,
                trace := trace s
                  @ [SetStatus Loading,
                     Log Client Info ''Activating LiquidJava extension...'',
                     ApplyItalicOverlay]
                  @ (if \<not> jarIsPresent E
                     then [ShowMessage WarningMessage ''LiquidJava API Jar Not Found in Workspace'',
                           Log Client Err
                             ''LiquidJava API jar not found in workspace - Not activating extension'']
                     else [Log Client Info
                             ''Found LiquidJava API in the workspace - Loading extension...'',
                           ShowMessage ErrorMessage
                             ''LiquidJava - Java Runtime Not Found in JAVA_HOME or PATH'',
                           Log Client Err
                             ''Java Runtime not found in JAVA_HOME or PATH - Not activating extension''])
                  @ [SetStatus Stopped] \<rparr>)"
  using assms
  by (cases "jarIsPresent E"; cases "javaExecutable E")
     (simp_all add: activate_def jarNotFound_def javaNotFound_def initWebview_def
        initStatusBar_def updateStatusBar_def logInfo_def logError_def emit_def Let_def)


theorem activate_prerequisite_missing_witness:
  "jarIsPresent (exampleEnv\<lparr>jarIsPresent := False\<rparr>) = False
   \<and> activate exampleConstants (exampleEnv\<lparr>jarIsPresent := False\<rparr>) initial =
       (Returned,
        \<lparr> serverProcess = None, client = None, socket = None, errorDiagnostic = None,
          statusBar = Some Stopped, view = False,
          trace = [SetStatus Loading,
                   Log Client Info ''Activating LiquidJava extension...'',
                   ApplyItalicOverlay,
                   ShowMessage WarningMessage ''LiquidJava API Jar Not Found in Workspace'',
                   Log Client Err
                     ''LiquidJava API jar not found in workspace - Not activating extension'',
                   SetStatus Stopped] \<rparr>)"
proof -
  have h: "\<not> jarIsPresent (exampleEnv\<lparr>jarIsPresent := False\<rparr>)
      \<or> javaExecutable (exampleEnv\<lparr>jarIsPresent := False\<rparr>) = None
      \<or> javaExecutable (exampleEnv\<lparr>jarIsPresent := False\<rparr>) = Some []"
    by simp
  show ?thesis
    using h activate_prerequisite_missing [OF h, of exampleConstants initial]
    by (simp add: initial_def)
qed

lemma startsNothing_simps:
  "startsNothing []"
  "startsNothing (e # es) \<longleftrightarrow>
     e \<noteq> GetAvailablePort \<and> (\<forall>a b c. e \<noteq> Spawn a b c) \<and> (\<forall>q. e \<noteq> ConnectToPort q) \<and> startsNothing es"
  "startsNothing (es @ es') \<longleftrightarrow> startsNothing es \<and> startsNothing es'"
  by (auto simp: startsNothing_def)

lemma stop_begin_startsNothing:
  "\<exists>es. trace (snd (stop_begin reason td s)) = trace s @ es \<and> startsNothing es"
  by (cases "client s") (simp_all add: stop_begin_def logInfo_def updateStatusBar_def emit_def Let_def startsNothing_simps)

lemma stop_after_client_startsNothing:
  "\<exists>es. trace (snd (stop_after_client r td s)) = trace s @ es \<and> startsNothing es"
  by (cases r; cases "socket s"; cases "socketDestroyError td"; cases "serverProcess s")
     (simp_all add: stop_after_client_def killProcess_def logError_def emit_def Let_def startsNothing_simps)

lemma stop_after_kill_trace:
  "trace (snd (stop_after_kill r s)) = trace s"
  by (cases r) (simp_all add: stop_after_kill_def)

lemma stopExtension_startsNothing:
  "\<exists>es. trace (snd (stopExtension reason td s)) = trace s @ es \<and> startsNothing es"
proof (cases "stop_begin reason td s")
  case (Pair b s1)
  obtain es1 where es1: "trace s1 = trace s @ es1" "startsNothing es1"
    using stop_begin_startsNothing [of reason td s] Pair by auto
  show ?thesis
  proof (cases b)
    case None
    then show ?thesis using Pair es1 by (simp add: stopExtension_def)
  next
    case (Some r)
    obtain r' s2 where ac: "stop_after_client r td s1 = (r', s2)"
      by (cases "stop_after_client r td s1")
    obtain es2 where es2: "trace s2 = trace s1 @ es2" "startsNothing es2"
      using stop_after_client_startsNothing [of r td s1] ac by auto
    have "trace (snd (stopExtension reason td s)) = trace s @ (es1 @ es2)"
      using Pair Some ac es1 es2 stop_after_kill_trace [of r' s2]
      by (simp add: stopExtension_def)
    moreover have "startsNothing (es1 @ es2)"
      using es1 es2 by (simp add: startsNothing_simps)
    ultimately show ?thesis by blast
  qed
qed

lemma startFailed_startsNothing:
  "\<exists>es. trace (snd (startFailed e td s)) = trace s @ es \<and> startsNothing es"
proof -
  let ?s2 = "logError Client (''Failed to initialize: '' @ e)
               (emit (ShowMessage ErrorMessage (''LiquidJava failed to initialize: '' @ e)) s)"
  obtain es where es: "trace (snd (stopExtension ''Failed to initialize'' td ?s2)) = trace ?s2 @ es"
      "startsNothing es"
    using stopExtension_startsNothing by blast
  have "trace (snd (startFailed e td s)) = trace (snd (stopExtension ''Failed to initialize'' td ?s2))"
    by (cases "stopExtension ''Failed to initialize'' td ?s2")
       (simp add: startFailed_def Let_def split: option.splits)
  then have "trace (snd (startFailed e td s)) =
      trace s @ ([ShowMessage ErrorMessage (''LiquidJava failed to initialize: '' @ e),
                  Log Client Err (''Failed to initialize: '' @ e)] @ es)"
    using es by (simp add: logError_def emit_def)
  moreover have "startsNothing ([ShowMessage ErrorMessage (''LiquidJava failed to initialize: '' @ e),
                  Log Client Err (''Failed to initialize: '' @ e)] @ es)"
    using es by (simp add: startsNothing_simps)
  ultimately show ?thesis by blast
qed

lemma runClient_connects:
  "\<exists>es. trace (snd (runClient K E port s)) =
          trace s @ [ClientStart (newClient E), ConnectToPort port] @ es \<and> startsNothing es"
proof -
  let ?s3 = "emit (ConnectToPort port) (emit (ClientStart (newClient E)) (s\<lparr>client := Some (newClient E)\<rparr>))"
  have t3: "trace ?s3 = trace s @ [ClientStart (newClient E), ConnectToPort port]"
    by (simp add: emit_def)
  show ?thesis
  proof (cases "connectResult E")
    case (Inr sock)
    show ?thesis
    proof (cases "startError E")
      case None
      then have "trace (snd (runClient K E port s)) =
          trace s @ [ClientStart (newClient E), ConnectToPort port] @ [Log Client Info ''Extension is ready'']"
        using Inr by (simp add: runClient_def Let_def logInfo_def emit_def)
      moreover have "startsNothing [Log Client Info ''Extension is ready'' :: ('a, 'b, 'c) effect]"
        by (simp add: startsNothing_simps)
      ultimately show ?thesis by blast
    next
      case (Some e)
      obtain es where es: "trace (snd (startFailed e (initTeardown E) (?s3\<lparr>socket := Some sock\<rparr>))) =
           trace (?s3\<lparr>socket := Some sock\<rparr>) @ es" "startsNothing es"
        using startFailed_startsNothing by blast
      have "runClient K E port s = startFailed e (initTeardown E) (?s3\<lparr>socket := Some sock\<rparr>)"
        using Inr Some by (simp add: runClient_def Let_def)
      then show ?thesis using es t3 by auto
    qed
  next
    case (Inl error)
    obtain r s4 where st: "stopExtension ''Failed to connect to server'' (connectTeardown E) ?s3 = (r, s4)"
      by (cases "stopExtension ''Failed to connect to server'' (connectTeardown E) ?s3")
    obtain es1 where es1: "trace s4 = trace ?s3 @ es1" "startsNothing es1"
      using stopExtension_startsNothing [of "''Failed to connect to server''" "connectTeardown E" ?s3] st
      by auto
    show ?thesis
    proof (cases r)
      case (Some x)
      then have "runClient K E port s = (Pending, s4)"
        using Inl st by (simp add: runClient_def Let_def)
      then show ?thesis using es1 t3 by auto
    next
      case None
      obtain es2 where es2: "trace (snd (startFailed error (initTeardown E) s4)) = trace s4 @ es2"
          "startsNothing es2"
        using startFailed_startsNothing by blast
      have "runClient K E port s = startFailed error (initTeardown E) s4"
        using Inl st None by (simp add: runClient_def Let_def)
      then have "trace (snd (runClient K E port s)) =
          trace s @ [ClientStart (newClient E), ConnectToPort port] @ (es1 @ es2)"
        using es1 es2 t3 by simp
      moreover have "startsNothing (es1 @ es2)"
        using es1 es2 by (simp add: startsNothing_simps)
      ultimately show ?thesis by blast
    qed
  qed
qed

lemma runLanguageServer_debug:
  assumes "DEBUG_MODE K"
  shows "runLanguageServer K E p s =
           (Inr (DEBUG_PORT K),
            s\<lparr>trace := trace s
                 @ [Log Client Info (''DEBUG MODE: Using fixed port '' @ toString (DEBUG_PORT K))]\<rparr>)"
  using assms by (simp add: runLanguageServer_def logInfo_def emit_def)

lemma activate_debug:
  assumes "DEBUG_MODE K" and "jarIsPresent E" and "javaExecutable E = Some p" and "p \<noteq> []"
  shows "activate K E s =
           runClient K E (DEBUG_PORT K)
             (s\<lparr> statusBar := Some Loading, view := False,
                 trace := trace s
                   @ [SetStatus Loading,
                      Log Client Info ''Activating LiquidJava extension...'',
                      ApplyItalicOverlay,
                      Log Client Info ''Found LiquidJava API in the workspace - Loading extension...'',
                      Log Client Info (''Using Java at: '' @ p),
                      Log Client Info ''Starting LiquidJava language server...'',
                      Log Client Info (''DEBUG MODE: Using fixed port '' @ toString (DEBUG_PORT K)),
                      Log Client Info ''Starting LiquidJava client...''] \<rparr>)"
  using assms
  by (simp add: activate_def runLanguageServer_def initWebview_def initStatusBar_def
      updateStatusBar_def logInfo_def emit_def Let_def)

text \<open>
  Claim C9. With \<open>DEBUG_MODE\<close> set, \<open>runLanguageServer\<close> returns \<open>DEBUG_PORT\<close> after one
  log line: it allocates no port, spawns nothing and leaves \<open>serverProcess\<close> as it was.
  An activation that passes the two checks then has no port allocation and no spawn among
  its effects, and the client connects to \<open>DEBUG_PORT\<close> and to no other port.
\<close>

theorem debug_mode_fixed_port:
  assumes "DEBUG_MODE K"
  shows "runLanguageServer K E p s =
           (Inr (DEBUG_PORT K),
            s\<lparr>trace := trace s
                 @ [Log Client Info (''DEBUG MODE: Using fixed port '' @ toString (DEBUG_PORT K))]\<rparr>)
       \<and> (jarIsPresent E \<and> javaExecutable E = Some p \<and> p \<noteq> [] \<longrightarrow>
            (\<exists>es. trace (snd (activate K E s)) = trace s @ es \<and>
                  GetAvailablePort \<notin> set es \<and> (\<forall>a b c. Spawn a b c \<notin> set es) \<and>
                  ConnectToPort (DEBUG_PORT K) \<in> set es \<and>
                  (\<forall>q. ConnectToPort q \<in> set es \<longrightarrow> q = DEBUG_PORT K)))"
proof (intro conjI impI)
  show "runLanguageServer K E p s =
           (Inr (DEBUG_PORT K),
            s\<lparr>trace := trace s
                 @ [Log Client Info (''DEBUG MODE: Using fixed port '' @ toString (DEBUG_PORT K))]\<rparr>)"
    using assms by (rule runLanguageServer_debug)
next
  assume pre: "jarIsPresent E \<and> javaExecutable E = Some p \<and> p \<noteq> []"
  let ?pre = "[SetStatus Loading,
               Log Client Info ''Activating LiquidJava extension...'',
               ApplyItalicOverlay,
               Log Client Info ''Found LiquidJava API in the workspace - Loading extension...'',
               Log Client Info (''Using Java at: '' @ p),
               Log Client Info ''Starting LiquidJava language server...'',
               Log Client Info (''DEBUG MODE: Using fixed port '' @ toString (DEBUG_PORT K)),
               Log Client Info ''Starting LiquidJava client...''] :: ('a, 'b, 'c) effect list"
  let ?s8 = "s\<lparr> statusBar := Some Loading, view := False, trace := trace s @ ?pre \<rparr>"
  have act: "activate K E s = runClient K E (DEBUG_PORT K) ?s8"
    using assms pre by (intro activate_debug) simp_all
  obtain es where es: "trace (snd (runClient K E (DEBUG_PORT K) ?s8)) =
      trace ?s8 @ [ClientStart (newClient E), ConnectToPort (DEBUG_PORT K)] @ es" "startsNothing es"
    using runClient_connects by blast
  let ?all = "?pre @ [ClientStart (newClient E), ConnectToPort (DEBUG_PORT K)] @ es"
  have "trace (snd (activate K E s)) = trace s @ ?all"
    using act es by simp
  moreover have "GetAvailablePort \<notin> set ?all" and "\<forall>a b c. Spawn a b c \<notin> set ?all"
    and "ConnectToPort (DEBUG_PORT K) \<in> set ?all"
    and "\<forall>q. ConnectToPort q \<in> set ?all \<longrightarrow> q = DEBUG_PORT K"
    using es(2) by (auto simp: startsNothing_def)
  ultimately show "\<exists>es. trace (snd (activate K E s)) = trace s @ es \<and>
                  GetAvailablePort \<notin> set es \<and> (\<forall>a b c. Spawn a b c \<notin> set es) \<and>
                  ConnectToPort (DEBUG_PORT K) \<in> set es \<and>
                  (\<forall>q. ConnectToPort q \<in> set es \<longrightarrow> q = DEBUG_PORT K)"
    by blast
qed


theorem debug_mode_fixed_port_witness:
  "DEBUG_MODE (exampleConstants\<lparr>DEBUG_MODE := True\<rparr>)
   \<and> jarIsPresent exampleEnv \<and> javaExecutable exampleEnv = Some ''/usr/bin/java''
   \<and> ''/usr/bin/java'' \<noteq> []
   \<and> runLanguageServer (exampleConstants\<lparr>DEBUG_MODE := True\<rparr>) exampleEnv ''/usr/bin/java''
        starting =
       (Inr 50000, starting\<lparr>trace := [Log Client Info ''DEBUG MODE: Using fixed port 50000'']\<rparr>)
   \<and> (\<exists>es. trace (snd (activate (exampleConstants\<lparr>DEBUG_MODE := True\<rparr>) exampleEnv starting))
             = trace starting @ es \<and>
            GetAvailablePort \<notin> set es \<and> (\<forall>a b c. Spawn a b c \<notin> set es) \<and>
            ConnectToPort 50000 \<in> set es \<and> ConnectToPort 54321 \<notin> set es)"
proof -
  have h1: "DEBUG_MODE (exampleConstants\<lparr>DEBUG_MODE := True\<rparr>)"
    by simp
  have h2: "jarIsPresent exampleEnv \<and> javaExecutable exampleEnv = Some ''/usr/bin/java''
              \<and> ''/usr/bin/java'' \<noteq> []"
    by (simp add: exampleEnv_def)
  have port: "DEBUG_PORT (exampleConstants\<lparr>DEBUG_MODE := True\<rparr>) = 50000"
    by (simp add: exampleConstants_def)
  have shown: "toString 50000 = ''50000''"
    by (simp add: number_defs)
  note inst = debug_mode_fixed_port [OF h1, of exampleEnv "''/usr/bin/java''" starting,
      unfolded port shown]
  have rls: "runLanguageServer (exampleConstants\<lparr>DEBUG_MODE := True\<rparr>) exampleEnv
               ''/usr/bin/java'' starting =
             (Inr 50000,
              starting\<lparr>trace := [Log Client Info ''DEBUG MODE: Using fixed port 50000'']\<rparr>)"
    using inst [THEN conjunct1] by (simp add: starting_def)
  obtain es where es:
      "trace (snd (activate (exampleConstants\<lparr>DEBUG_MODE := True\<rparr>) exampleEnv starting))
         = trace starting @ es"
      "GetAvailablePort \<notin> set es" "\<forall>a b c. Spawn a b c \<notin> set es"
      "ConnectToPort 50000 \<in> set es" "\<forall>q. ConnectToPort q \<in> set es \<longrightarrow> q = 50000"
    using inst [THEN conjunct2, rule_format, OF h2] by blast
  have "ConnectToPort 54321 \<notin> set es"
    using es(5) by fastforce
  then show ?thesis
    using h1 h2 rls es(1-4) by blast
qed

end
